theory Spec2Isabelle
  imports Complex_Main "HOL-Library.AList"
begin

section \<open>Numbers and arrays\<close>

text \<open>
  The program computes with numpy's float64. The model keeps the special values the
  code branches on (not-a-number and the two infinities) and takes the arithmetic of
  finite values to be exact: rounding, overflow and the sign of zero are not modelled.
  Division follows numpy (warnings are filtered in the source, line 7): a finite value
  over zero is an infinity, zero over zero is not-a-number, nothing raises.
\<close>

datatype fl = Fin real | PInf | NInf | NaN

fun isnan :: "fl \<Rightarrow> bool" where
  "isnan NaN = True"
| "isnan _ = False"

fun fadd :: "fl \<Rightarrow> fl \<Rightarrow> fl" where
  "fadd (Fin a) (Fin b) = Fin (a + b)"
| "fadd NaN _ = NaN"
| "fadd _ NaN = NaN"
| "fadd PInf NInf = NaN"
| "fadd NInf PInf = NaN"
| "fadd PInf _ = PInf"
| "fadd _ PInf = PInf"
| "fadd NInf _ = NInf"
| "fadd _ NInf = NInf"

fun fneg :: "fl \<Rightarrow> fl" where
  "fneg (Fin a) = Fin (- a)"
| "fneg PInf = NInf"
| "fneg NInf = PInf"
| "fneg NaN = NaN"

definition fsub :: "fl \<Rightarrow> fl \<Rightarrow> fl" where
  "fsub a b = fadd a (fneg b)"

text \<open>An infinity of the given sign times a finite value.\<close>

definition inf_times :: "bool \<Rightarrow> real \<Rightarrow> fl" where
  "inf_times pos a = (if a = 0 then NaN else if (0 < a) = pos then PInf else NInf)"

fun fmul :: "fl \<Rightarrow> fl \<Rightarrow> fl" where
  "fmul (Fin a) (Fin b) = Fin (a * b)"
| "fmul NaN _ = NaN"
| "fmul _ NaN = NaN"
| "fmul PInf (Fin b) = inf_times True b"
| "fmul (Fin a) PInf = inf_times True a"
| "fmul NInf (Fin b) = inf_times False b"
| "fmul (Fin a) NInf = inf_times False a"
| "fmul PInf PInf = PInf"
| "fmul NInf NInf = PInf"
| "fmul PInf NInf = NInf"
| "fmul NInf PInf = NInf"

fun fdiv :: "fl \<Rightarrow> fl \<Rightarrow> fl" where
  "fdiv (Fin a) (Fin b) =
     (if b = 0 then (if a = 0 then NaN else if 0 < a then PInf else NInf)
      else Fin (a / b))"
| "fdiv NaN _ = NaN"
| "fdiv _ NaN = NaN"
| "fdiv (Fin a) PInf = Fin 0"
| "fdiv (Fin a) NInf = Fin 0"
| "fdiv PInf (Fin b) = (if 0 \<le> b then PInf else NInf)"
| "fdiv NInf (Fin b) = (if 0 \<le> b then NInf else PInf)"
| "fdiv _ _ = NaN"

text \<open>The comparison \<open><\<close>: false whenever an operand is not-a-number.\<close>

fun fless :: "fl \<Rightarrow> fl \<Rightarrow> bool" where
  "fless (Fin a) (Fin b) = (a < b)"
| "fless NaN _ = False"
| "fless _ NaN = False"
| "fless NInf NInf = False"
| "fless NInf _ = True"
| "fless _ NInf = False"
| "fless PInf _ = False"
| "fless _ PInf = True"

text \<open>
  \<open>np.nan_to_num(x, nan=0.0)\<close>: not-a-number becomes 0.0, the infinities become the
  largest and the smallest finite float64.
\<close>

definition max_float :: real where
  "max_float = (2 ^ 53 - 1) * 2 ^ 971"

fun nan_to_num :: "fl \<Rightarrow> fl" where
  "nan_to_num NaN = Fin 0"
| "nan_to_num PInf = Fin max_float"
| "nan_to_num NInf = Fin (- max_float)"
| "nan_to_num (Fin a) = Fin a"

text \<open>
  Sums of a vector and of a matrix (\<open>arr.sum()\<close>, \<open>np.sum\<close>, Python's \<open>sum\<close>).
  With exact addition the order of summation is immaterial.
\<close>

definition fsum :: "fl list \<Rightarrow> fl" where
  "fsum xs = foldr fadd xs (Fin 0)"

definition msum :: "fl list list \<Rightarrow> fl" where
  "msum M = fsum (map fsum M)"

type_synonym vec = "fl list"
type_synonym mat = "fl list list"

definition zeros :: "nat \<Rightarrow> vec" where
  "zeros n = replicate n (Fin 0)"

definition ones :: "nat \<Rightarrow> vec" where
  "ones n = replicate n (Fin 1)"

definition zeros2 :: "nat \<Rightarrow> nat \<Rightarrow> mat" where
  "zeros2 r c = replicate r (zeros c)"

definition zeros3 :: "nat \<Rightarrow> nat \<Rightarrow> nat \<Rightarrow> mat list" where
  "zeros3 o_n r c = replicate o_n (zeros2 r c)"

definition vdiv :: "vec \<Rightarrow> fl \<Rightarrow> vec" where
  "vdiv v q = map (\<lambda>x. fdiv x q) v"

definition madd :: "mat \<Rightarrow> mat \<Rightarrow> mat" where
  "madd A B = map (\<lambda>(ra, rb). map (\<lambda>(a, b). fadd a b) (zip ra rb)) (zip A B)"

text \<open>
  An index into the first axis of an array of length \<open>n\<close>: Python integers, negative
  ones counting from the end; \<open>None\<close> is numpy's IndexError.
\<close>

definition np_index :: "nat \<Rightarrow> int \<Rightarrow> nat option" where
  "np_index n i =
     (if 0 \<le> i \<and> i < int n then Some (nat i)
      else if - int n \<le> i \<and> i < 0 then Some (nat (int n + i))
      else None)"

text \<open>\<open>np.dot(v, M)\<close> for a vector and a matrix, and the transpose \<open>M.T\<close>.\<close>

definition np_T :: "nat \<Rightarrow> mat \<Rightarrow> mat" where
  "np_T n M = map (\<lambda>j. map (\<lambda>i. M ! i ! j) [0..<length M]) [0..<n]"

definition np_dot :: "nat \<Rightarrow> vec \<Rightarrow> mat \<Rightarrow> vec" where
  "np_dot n v M = map (\<lambda>i. fsum (map (\<lambda>k. fmul (v ! k) (M ! k ! i)) [0..<length v])) [0..<n]"

text \<open>
  Broadcasting products: a matrix times a vector laid along its rows (\<open>M * v\<close>), a
  vector times a matrix (\<open>v * M\<close>), and two matrices entry by entry.
\<close>

definition vmul_r :: "mat \<Rightarrow> vec \<Rightarrow> mat" where
  "vmul_r M v = map (\<lambda>row. map (\<lambda>(a, b). fmul a b) (zip row v)) M"

definition vmul_l :: "vec \<Rightarrow> mat \<Rightarrow> mat" where
  "vmul_l v M = map (\<lambda>row. map (\<lambda>(b, a). fmul b a) (zip v row)) M"

definition mmul :: "mat \<Rightarrow> mat \<Rightarrow> mat" where
  "mmul A B = map (\<lambda>(ra, rb). map (\<lambda>(a, b). fmul a b) (zip ra rb)) (zip A B)"

definition mdiv :: "mat \<Rightarrow> mat \<Rightarrow> mat" where
  "mdiv A B = map (\<lambda>(ra, rb). map (\<lambda>(a, b). fdiv a b) (zip ra rb)) (zip A B)"

text \<open>
  Assigning a vector to a row of \<open>n\<close> entries (\<open>arr[k] = v\<close>): a vector of length one
  is broadcast, any other length mismatch is numpy's ValueError.
\<close>

datatype error =
  TypeError | IndexError | AssertionError | UnboundLocalError | ZeroDivisionError
  | AttributeError | ValueError

definition bcast :: "nat \<Rightarrow> vec \<Rightarrow> error + vec" where
  "bcast n v =
     (if length v = n then Inr v
      else if length v = 1 then Inr (replicate n (hd v))
      else Inl ValueError)"

section \<open>The class HMM\<close>

text \<open>
  The emission table is a two-dimensional array (symbol, destination state) as the
  initialisers build it, or a three-dimensional one (symbol, origin, destination) as
  \<open>update_params\<close> leaves it; the recursions multiply \<open>transitions\<close> by
  \<open>emissions[obs]\<close> and numpy broadcasts either shape.

  The dictionaries of null arcs (\<open>d[ix][iy] = p\<close>) are association lists in insertion
  order. The model is taken after initialisation: \<open>transitions\<close> and \<open>emissions\<close> are
  arrays, with \<open>transitions\<close> of shape \<open>num_states \<times> num_states\<close>; the two counters
  are \<open>None\<close> until \<open>reset_counters\<close> has run.
\<close>

datatype emis = Dest mat | Arc "mat list"

type_synonym arcs = "(nat \<times> (nat \<times> fl) list) list"

record hmm =
  num_states :: nat
  num_outputs :: nat
  transitions :: mat
  emissions :: emis
  non_null_arcs :: "(nat \<times> nat) list"
  null_arcs :: arcs
  topo_order :: "nat list"
  output_arc_counts :: "mat list option"
  output_arc_counts_null :: "arcs option"

text \<open>What \<open>print\<close> wrote: the NaN warning of \<open>forward\<close>, with the time it names.\<close>

datatype msg = NaNWarning nat

text \<open>What \<open>forward\<close> hands back to its caller.\<close>

datatype pyval = PyNone | PyTrellis mat vec

text \<open>\<open>self.transitions * self.emissions[obs]\<close>.\<close>

definition trans_emis :: "hmm \<Rightarrow> int \<Rightarrow> error + mat" where
  "trans_emis m obs =
     (case emissions m of
        Dest E \<Rightarrow>
          (case np_index (length E) obs of
             None \<Rightarrow> Inl IndexError
           | Some k \<Rightarrow> Inr (vmul_r (transitions m) (E ! k)))
      | Arc E \<Rightarrow>
          (case np_index (length E) obs of
             None \<Rightarrow> Inl IndexError
           | Some k \<Rightarrow> Inr (mmul (transitions m) (E ! k))))"

subsection \<open>reset_counters (the second definition, line 502, is the one in force)\<close>

definition reset_counters :: "hmm \<Rightarrow> hmm" where
  "reset_counters m =
     m\<lparr>output_arc_counts := Some (zeros3 (num_outputs m) (num_states m) (num_states m)),
       output_arc_counts_null := Some []\<rparr>"

text \<open>\<open>self.output_arc_counts[obs] += step3\<close>.\<close>

definition add_counts :: "hmm \<Rightarrow> int \<Rightarrow> mat \<Rightarrow> error + mat list" where
  "add_counts m obs step3 =
     (case output_arc_counts m of
        None \<Rightarrow> Inl TypeError
      | Some C \<Rightarrow>
          (case np_index (length C) obs of
             None \<Rightarrow> Inl IndexError
           | Some k \<Rightarrow> Inr (C[k := madd (C ! k) step3])))"

subsection \<open>backward\<close>

text \<open>
  The null arcs out of one state \<open>s\<close>, in the order of its dictionary:
  \<open>betas_[t][s] += betas_[t][s_y] * self.null_arcs[s][s_y]\<close>, each update reading the
  row as the previous one left it. The states a null arc joins are taken to be states
  of the model (\<open>arcs_in_range\<close> below); an index beyond them would be numpy's
  IndexError.
\<close>

fun null_back_row :: "nat \<Rightarrow> (nat \<times> fl) list \<Rightarrow> vec \<Rightarrow> vec" where
  "null_back_row s [] b = b"
| "null_back_row s ((sy, p) # rest) b =
     null_back_row s rest (b[s := fadd (b ! s) (fmul (b ! sy) p)])"

fun null_back :: "arcs \<Rightarrow> nat list \<Rightarrow> vec \<Rightarrow> vec" where
  "null_back na [] b = b"
| "null_back na (s # ss) b =
     (case map_of na s of
        None \<Rightarrow> null_back na ss b
      | Some row \<Rightarrow> null_back na ss (null_back_row s row b))"

text \<open>The loop \<open>for t in range(len(data) - 1, -1, -1)\<close> over the rows of \<open>betas_\<close>.\<close>

fun backward_loop :: "hmm \<Rightarrow> int list \<Rightarrow> vec \<Rightarrow> nat list \<Rightarrow> mat \<Rightarrow> error + mat" where
  "backward_loop m data Q [] B = Inr B"
| "backward_loop m data Q (t # ts) B =
     (case trans_emis m (data ! t) of
        Inl e \<Rightarrow> Inl e
      | Inr TE \<Rightarrow>
          (let emitted = np_dot (num_states m) (B ! (t + 1)) (np_T (num_states m) TE);
               nulled = null_back (null_arcs m) (rev (topo_order m)) emitted
           in if t < length Q
              then backward_loop m data Q ts (B[t := vdiv nulled (Q ! t)])
              else Inl IndexError))"

definition backward :: "hmm \<Rightarrow> int list \<Rightarrow> vec \<Rightarrow> vec option \<Rightarrow> error + mat" where
  "backward m data Q init_beta =
     (let T = length data;
          B0 = zeros2 (T + 1) (num_states m)
      in case (case init_beta of
                 None \<Rightarrow> Inr (ones (num_states m))
               | Some b \<Rightarrow> bcast (num_states m) b) of
           Inl e \<Rightarrow> Inl e
         | Inr bT \<Rightarrow>
             if Q = [] then Inl IndexError
             else backward_loop m data Q (rev [0..<T]) (B0[T := vdiv bT (last Q)]))"

subsection \<open>The posterior matrix of the emitting arcs at one time step\<close>

text \<open>
  \<open>step1 = alphas_[t - 1] * (self.transitions * self.emissions[obs]).T\<close>,
  \<open>step2 = betas_[t]\<close>, \<open>step3 = (step1.T * step2)\<close>, with \<open>obs = data[t - 1]\<close>.
\<close>

definition arc_posterior :: "hmm \<Rightarrow> mat \<Rightarrow> mat \<Rightarrow> int list \<Rightarrow> nat \<Rightarrow> error + mat" where
  "arc_posterior m alphas betas data t =
     (case trans_emis m (data ! (t - 1)) of
        Inl e \<Rightarrow> Inl e
      | Inr TE \<Rightarrow>
          (let step1 = vmul_l (alphas ! (t - 1)) (np_T (num_states m) TE);
               step2 = betas ! t
           in Inr (vmul_r (np_T (num_states m) step1) step2)))"

subsection \<open>forward\<close>

text \<open>
  The trellis and the scale factors as \<open>forward\<close> builds them (lines 313 to 322): the
  recursion over \<open>t\<close> stands inside a string literal (lines 324 to 343) and does not
  run, so only row 0 and \<open>Q[0]\<close> are ever written.
\<close>

definition forward_alphas :: "hmm \<Rightarrow> int list \<Rightarrow> vec option \<Rightarrow> error + (mat \<times> vec)" where
  "forward_alphas m data init_prob =
     (let T = length data;
          S = num_states m
      in case (case init_prob of
                 None \<Rightarrow>
                   if S = 0 then Inl ZeroDivisionError
                   else Inr (replicate S (Fin (1 / real S)))
               | Some p \<Rightarrow> bcast S p) of
           Inl e \<Rightarrow> Inl e
         | Inr p \<Rightarrow>
             Inr ((zeros2 (T + 1) S)[0 := vdiv p (fsum p)], (ones (T + 1))[0 := fsum p]))"

text \<open>
  The loop of lines 348 to 352 computes \<open>obs\<close> and \<open>step3\<close> at every \<open>t\<close> and keeps
  nothing but the last pair.
\<close>

fun last_posterior ::
  "hmm \<Rightarrow> mat \<Rightarrow> mat \<Rightarrow> int list \<Rightarrow> nat list \<Rightarrow> (int \<times> mat) option \<Rightarrow> error + (int \<times> mat) option"
where
  "last_posterior m alphas betas data [] cur = Inr cur"
| "last_posterior m alphas betas data (t # ts) cur =
     (case arc_posterior m alphas betas data t of
        Inl e \<Rightarrow> Inl e
      | Inr step3 \<Rightarrow> last_posterior m alphas betas data ts (Some (data ! (t - 1), step3)))"

text \<open>
  Lines 313 to 352: the trellis, the call of \<open>backward\<close> with the scale factors just
  built, \<open>reset_counters\<close>, the loop. The result is the model as it stands then and
  the pair the loop left; with an empty sequence \<open>step3\<close> is never bound and line 355
  raises.
\<close>

definition forward_step3 :: "hmm \<Rightarrow> int list \<Rightarrow> vec option \<Rightarrow> hmm \<times> (error + int \<times> mat)" where
  "forward_step3 m data init_prob =
     (case forward_alphas m data init_prob of
        Inl e \<Rightarrow> (m, Inl e)
      | Inr (alphas, Q) \<Rightarrow>
          (case backward m data Q (Some (ones (num_states m))) of
             Inl e \<Rightarrow> (m, Inl e)
           | Inr betas \<Rightarrow>
               (let m1 = reset_counters m
                in case last_posterior m1 alphas betas data [1..<length data + 1] None of
                     Inl e \<Rightarrow> (m1, Inl e)
                   | Inr None \<Rightarrow> (m1, Inl UnboundLocalError)
                   | Inr (Some (obs, step3)) \<Rightarrow> (m1, Inr (obs, step3)))))"

text \<open>
  The whole method. The NaN check (lines 355 to 358) stands after the loop: it prints,
  sets the local \<open>total_prob\<close>, which is never read again, and goes on to line 360. The
  method has no \<open>return\<close>: a call that raises nothing yields \<open>None\<close>.
\<close>

definition forward :: "hmm \<Rightarrow> int list \<Rightarrow> vec option \<Rightarrow> hmm \<times> msg list \<times> (error + pyval)" where
  "forward m data init_prob =
     (case forward_step3 m data init_prob of
        (m1, Inl e) \<Rightarrow> (m1, [], Inl e)
      | (m1, Inr (obs, step3)) \<Rightarrow>
          (let total_prob = msum step3;
               out = (if isnan total_prob then [NaNWarning (length data)] else [])
           in case add_counts m1 obs step3 of
                Inl e \<Rightarrow> (m1, out, Inl e)
              | Inr C \<Rightarrow> (m1\<lparr>output_arc_counts := Some C\<rparr>, out, Inr PyNone)))"

subsection \<open>update_params\<close>

text \<open>\<open>arr.sum(axis=0)\<close> of a stack of \<open>r \<times> c\<close> matrices.\<close>

definition sum_axis0 :: "nat \<Rightarrow> nat \<Rightarrow> mat list \<Rightarrow> mat" where
  "sum_axis0 r c Cs =
     map (\<lambda>i. map (\<lambda>j. fsum (map (\<lambda>M. M ! i ! j) Cs)) [0..<c]) [0..<r]"

text \<open>
  The counters of the null arcs are a \<open>defaultdict\<close> of \<open>defaultdict\<close>s with default
  0: a missing key reads as zero. (Reading one also creates it, which changes no value
  and is not modelled.)
\<close>

definition nc_row :: "arcs \<Rightarrow> nat \<Rightarrow> (nat \<times> fl) list" where
  "nc_row nc ix = (case map_of nc ix of None \<Rightarrow> [] | Some row \<Rightarrow> row)"

definition nc_get :: "arcs \<Rightarrow> nat \<Rightarrow> nat \<Rightarrow> fl" where
  "nc_get nc ix iy = (case map_of (nc_row nc ix) iy of None \<Rightarrow> Fin 0 | Some v \<Rightarrow> v)"

definition nc_add :: "arcs \<Rightarrow> nat \<Rightarrow> nat \<Rightarrow> fl \<Rightarrow> arcs" where
  "nc_add nc ix iy p =
     AList.update ix (AList.update iy (fadd (nc_get nc ix iy) p) (nc_row nc ix)) nc"

text \<open>
  \<open>_assert_emission_probs\<close>: \<open>emission_sum = self.emissions.sum(axis=0)\<close>, then for
  every pair of \<open>non_null_arcs\<close> the assertion \<open>emission_sum[arc].sum() - 1 < 10e-6\<close>.
  Under a two-dimensional table \<open>emission_sum\<close> is a vector and a pair cannot index it.
\<close>

fun assert_emission_arcs :: "mat \<Rightarrow> (nat \<times> nat) list \<Rightarrow> error + unit" where
  "assert_emission_arcs es [] = Inr ()"
| "assert_emission_arcs es ((ix, iy) # rest) =
     (if ix < length es \<and> iy < length (es ! ix)
      then (if fless (fsub (es ! ix ! iy) (Fin 1)) (Fin (10 / 10 ^ 6))
            then assert_emission_arcs es rest
            else Inl AssertionError)
      else Inl IndexError)"

definition assert_emission_probs :: "hmm \<Rightarrow> error + unit" where
  "assert_emission_probs m =
     (case emissions m of
        Dest E \<Rightarrow> (if non_null_arcs m = [] then Inr () else Inl IndexError)
      | Arc E \<Rightarrow>
          assert_emission_arcs (sum_axis0 (num_states m) (num_states m) E) (non_null_arcs m))"

text \<open>
  \<open>_assert_transition_probs\<close>: for every state \<open>s\<close>,
  \<open>self.transitions[s].sum() + null_sum - 1 < 10e-6\<close>.
\<close>

fun assert_transition_states :: "hmm \<Rightarrow> nat list \<Rightarrow> error + unit" where
  "assert_transition_states m [] = Inr ()"
| "assert_transition_states m (s # ss) =
     (let null_sum = (case map_of (null_arcs m) s of
                        None \<Rightarrow> Fin 0
                      | Some row \<Rightarrow> fsum (map snd row))
      in if fless (fsub (fadd (fsum (transitions m ! s)) null_sum) (Fin 1)) (Fin (10 / 10 ^ 6))
         then assert_transition_states m ss
         else Inl AssertionError)"

definition assert_transition_probs :: "hmm \<Rightarrow> error + unit" where
  "assert_transition_probs m = assert_transition_states m [0..<num_states m]"

text \<open>
  The denominator of lines 523 and 529:
  \<open>trans_sum_row[ix] + sum(self.output_arc_counts_null[ix].values())\<close>.
\<close>

definition leaving_mass :: "mat \<Rightarrow> arcs \<Rightarrow> nat \<Rightarrow> fl" where
  "leaving_mass trans_sum nc ix =
     fadd (fsum (trans_sum ! ix)) (fsum (map snd (nc_row nc ix)))"

definition update_params :: "hmm \<Rightarrow> hmm \<times> (error + unit)" where
  "update_params m =
     (case output_arc_counts m of
        None \<Rightarrow> (m, Inl AttributeError)
      | Some C \<Rightarrow>
          (let S = num_states m;
               trans_sum = sum_axis0 S S C;
               m1 = m\<lparr>emissions := Arc (map (\<lambda>M. map (map nan_to_num) (mdiv M trans_sum)) C)\<rparr>
           in case assert_emission_probs m1 of
                Inl e \<Rightarrow> (m1, Inl e)
              | Inr _ \<Rightarrow>
                  (case output_arc_counts_null m of
                     None \<Rightarrow> (m1, Inl TypeError)
                   | Some nc \<Rightarrow>
                       (let trans_new =
                              map (\<lambda>ix. map (\<lambda>iy. fdiv (trans_sum ! ix ! iy)
                                                     (leaving_mass trans_sum nc ix))
                                         [0..<length (transitions m ! ix)])
                                  [0..<length (transitions m)];
                            m2 = m1\<lparr>transitions := trans_new\<rparr>;
                            null_new =
                              map (\<lambda>(ix, row).
                                     (ix, map (\<lambda>(iy, p). (iy, fdiv (nc_get nc ix iy)
                                                               (leaving_mass trans_sum nc ix)))
                                              row))
                                  (null_arcs m);
                            m3 = m2\<lparr>null_arcs := null_new\<rparr>
                        in (m3, assert_transition_probs m3)))))"

subsection \<open>forward_backward\<close>

text \<open>
  The loop of lines 481 to 487: the posterior matrix, the assertion
  \<open>np.sum(step3) - 1 < 1e-6\<close>, the addition into \<open>output_arc_counts[obs]\<close>.
\<close>

fun emit_accumulate :: "mat \<Rightarrow> mat \<Rightarrow> int list \<Rightarrow> nat list \<Rightarrow> hmm \<Rightarrow> hmm \<times> (error + unit)" where
  "emit_accumulate alphas betas train [] m = (m, Inr ())"
| "emit_accumulate alphas betas train (t # ts) m =
     (case arc_posterior m alphas betas train t of
        Inl e \<Rightarrow> (m, Inl e)
      | Inr step3 \<Rightarrow>
          if fless (fsub (msum step3) (Fin 1)) (Fin (1 / 10 ^ 6))
          then (case add_counts m (train ! (t - 1)) step3 of
                  Inl e \<Rightarrow> (m, Inl e)
                | Inr C \<Rightarrow> emit_accumulate alphas betas train ts (m\<lparr>output_arc_counts := Some C\<rparr>))
          else (m, Inl AssertionError))"

text \<open>
  The loop of lines 490 to 494 at one \<open>t\<close>, over the null arcs in dictionary order:
  \<open>p = alphas_[t][ix] * self.null_arcs[ix][iy] * betas_[t][iy] * Q[t]\<close>.
\<close>

definition null_posterior :: "mat \<Rightarrow> mat \<Rightarrow> vec \<Rightarrow> nat \<Rightarrow> nat \<Rightarrow> nat \<Rightarrow> fl \<Rightarrow> fl" where
  "null_posterior alphas betas Q t ix iy p =
     fmul (fmul (fmul (alphas ! t ! ix) p) (betas ! t ! iy)) (Q ! t)"

definition null_accumulate_step :: "mat \<Rightarrow> mat \<Rightarrow> vec \<Rightarrow> arcs \<Rightarrow> nat \<Rightarrow> arcs \<Rightarrow> arcs" where
  "null_accumulate_step alphas betas Q na t nc =
     fold (\<lambda>(ix, row) nc1.
             fold (\<lambda>(iy, p) nc2. nc_add nc2 ix iy (null_posterior alphas betas Q t ix iy p))
                  row nc1)
          na nc"

definition null_accumulate :: "mat \<Rightarrow> mat \<Rightarrow> vec \<Rightarrow> nat \<Rightarrow> hmm \<Rightarrow> hmm \<times> (error + unit)" where
  "null_accumulate alphas betas Q T m =
     (if T \<le> 1 \<or> null_arcs m = [] then (m, Inr ())
      else (case output_arc_counts_null m of
              None \<Rightarrow> (m, Inl TypeError)
            | Some nc \<Rightarrow>
                (m\<lparr>output_arc_counts_null :=
                     Some (fold (null_accumulate_step alphas betas Q (null_arcs m)) [1..<T] nc)\<rparr>,
                 Inr ())))"

text \<open>
  The method: \<open>alphas_, Q = self.forward(...)\<close> unpacks what \<open>forward\<close> returned, and
  unpacking \<open>None\<close> is a TypeError.
\<close>

definition forward_backward ::
  "hmm \<Rightarrow> int list \<Rightarrow> vec option \<Rightarrow> vec option \<Rightarrow> bool
     \<Rightarrow> hmm \<times> msg list \<times> (error + (mat \<times> mat \<times> vec))"
where
  "forward_backward m train init_prob init_beta do_update =
     (case forward m train init_prob of
        (m1, out, Inl e) \<Rightarrow> (m1, out, Inl e)
      | (m1, out, Inr PyNone) \<Rightarrow> (m1, out, Inl TypeError)
      | (m1, out, Inr (PyTrellis alphas Q)) \<Rightarrow>
          (case backward m1 train Q init_beta of
             Inl e \<Rightarrow> (m1, out, Inl e)
           | Inr betas \<Rightarrow>
               (case emit_accumulate alphas betas train [1..<length train + 1] (reset_counters m1) of
                  (m2, Inl e) \<Rightarrow> (m2, out, Inl e)
                | (m2, Inr _) \<Rightarrow>
                    (case null_accumulate alphas betas Q (length train) m2 of
                       (m3, Inl e) \<Rightarrow> (m3, out, Inl e)
                     | (m3, Inr _) \<Rightarrow>
                         if do_update
                         then (case update_params m3 of
                                 (m4, Inl e) \<Rightarrow> (m4, out, Inl e)
                               | (m4, Inr _) \<Rightarrow> (m4, out, Inr (alphas, betas, Q)))
                         else (m3, out, Inr (alphas, betas, Q))))))"

section \<open>The composite model builder\<close>

text \<open>
  \<open>initialize_combined_hmm\<close> is defined five times in the module; the last definition
  (line 1044) is the one the name is bound to from then on, and the one modelled.
  The module constant \<open>transition_prob_matrix\<close> is that of line 548.
\<close>

definition transition_prob_matrix :: mat where
  "transition_prob_matrix =
     [[Fin (8 / 10), Fin (2 / 10), Fin 0],
      [Fin 0, Fin (8 / 10), Fin (2 / 10)],
      [Fin 0, Fin 0, Fin (8 / 10)]]"

text \<open>
  Assigning a two-dimensional array to an \<open>n \<times> k\<close> slice: an axis of length one is
  broadcast, any other mismatch is numpy's ValueError.
\<close>

definition bcast2 :: "nat \<Rightarrow> nat \<Rightarrow> mat \<Rightarrow> error + mat" where
  "bcast2 n k B =
     (if B \<noteq> [] \<and> (length B = n \<or> length B = 1)
         \<and> list_all (\<lambda>row. length row = length (hd B)) B
         \<and> (length (hd B) = k \<or> length (hd B) = 1)
      then Inr (map (\<lambda>i. map (\<lambda>j. B ! (if length B = 1 then 0 else i)
                                       ! (if length (hd B) = 1 then 0 else j))
                              [0..<k])
                    [0..<n])
      else Inl ValueError)"

text \<open>A three-dimensional emission table does not fit the two-dimensional slice.\<close>

fun emis_block :: "nat \<Rightarrow> nat \<Rightarrow> emis \<Rightarrow> error + mat" where
  "emis_block n k (Dest E) = bcast2 n k E"
| "emis_block n k (Arc E) = Inl ValueError"

text \<open>\<open>row[c0 : c0 + len(b)] = b\<close> and \<open>M[r0 : r0 + len(B), c0 : c0 + k] = B\<close>.\<close>

definition set_slice :: "vec \<Rightarrow> nat \<Rightarrow> vec \<Rightarrow> vec" where
  "set_slice row c0 b = take c0 row @ b @ drop (c0 + length b) row"

definition set_block :: "mat \<Rightarrow> nat \<Rightarrow> nat \<Rightarrow> mat \<Rightarrow> mat" where
  "set_block M r0 c0 B =
     map (\<lambda>i. if r0 \<le> i \<and> i < r0 + length B then set_slice (M ! i) c0 (B ! (i - r0)) else M ! i)
         [0..<length M]"

text \<open>The loop over the letters of the word (lines 1061 to 1076).\<close>

fun copy_letters ::
  "string \<Rightarrow> (char \<Rightarrow> hmm option) \<Rightarrow> nat \<Rightarrow> mat \<Rightarrow> mat \<Rightarrow> error + (mat \<times> mat)"
where
  "copy_letters [] letter_HMMs current_state_index T E = Inr (T, E)"
| "copy_letters (letter # rest) letter_HMMs current_state_index T E =
     (case letter_HMMs letter of
        None \<Rightarrow> Inl ValueError
      | Some letter_hmm \<Rightarrow>
          (case bcast2 3 3 (transitions letter_hmm) of
             Inl e \<Rightarrow> Inl e
           | Inr TB \<Rightarrow>
               (case emis_block 256 3 (emissions letter_hmm) of
                  Inl e \<Rightarrow> Inl e
                | Inr EB \<Rightarrow>
                    copy_letters rest letter_HMMs (current_state_index + 3)
                      (set_block T current_state_index current_state_index TB)
                      (set_block E 0 current_state_index EB))))"

text \<open>One pass of the loop of lines 1079 to 1085, which writes into row \<open>i\<close>.\<close>

definition letter_row :: "nat \<Rightarrow> nat \<Rightarrow> mat \<Rightarrow> mat" where
  "letter_row num_st i T =
     (if (i - 5) mod 3 = 2
      then (let T1 = T[i := (T ! i)[i := Fin (8 / 10)]]
            in if i + 1 < num_st - 5 then T1[i := (T1 ! i)[i + 1 := Fin (2 / 10)]] else T1)
      else T[i := set_slice (T ! i) i (transition_prob_matrix ! ((i - 5) mod 3))])"

definition initialize_combined_hmm :: "string \<Rightarrow> (char \<Rightarrow> hmm option) \<Rightarrow> hmm \<Rightarrow> error + hmm" where
  "initialize_combined_hmm word letter_HMMs silence_HMM =
     (let num_st = 5 + 5 + 3 * length word
      in case bcast2 5 5 (transitions silence_HMM) of
           Inl e \<Rightarrow> Inl e
         | Inr ST \<Rightarrow>
             (case emis_block 256 5 (emissions silence_HMM) of
                Inl e \<Rightarrow> Inl e
              | Inr SE \<Rightarrow>
                  (case copy_letters word letter_HMMs 5
                          (set_block (zeros2 num_st num_st) 0 0 ST)
                          (set_block (zeros2 256 num_st) 0 0 SE) of
                     Inl e \<Rightarrow> Inl e
                   | Inr (T2, E2) \<Rightarrow>
                       (let T3 = fold (letter_row num_st) [5..<num_st - 5] T2
                        in Inr \<lparr>num_states = num_st, num_outputs = 256,
                                transitions = set_block T3 (num_st - 5) (num_st - 5) ST,
                                emissions = Dest (set_block E2 0 (num_st - 5) SE),
                                non_null_arcs = [], null_arcs = [], topo_order = [],
                                output_arc_counts = None,
                                output_arc_counts_null = None\<rparr>))))"

section \<open>Models used as concrete inputs\<close>

text \<open>
  Two states, two symbols: state 0 stays or moves on with probability one half each,
  state 1 loops; both symbols are equally likely on arrival in either state.
\<close>

definition ex_hmm :: hmm where
  "ex_hmm =
     \<lparr>num_states = 2, num_outputs = 2,
      transitions = [[Fin (1 / 2), Fin (1 / 2)], [Fin 0, Fin 1]],
      emissions = Dest [[Fin (1 / 2), Fin (1 / 2)], [Fin (1 / 2), Fin (1 / 2)]],
      non_null_arcs = [], null_arcs = [], topo_order = [0, 1],
      output_arc_counts = None, output_arc_counts_null = None\<rparr>"

text \<open>The same model holding counts of an earlier sequence: one at every arc and symbol.\<close>

definition ex_counted :: hmm where
  "ex_counted =
     ex_hmm\<lparr>output_arc_counts :=
                Some [[[Fin 1, Fin 1], [Fin 1, Fin 1]], [[Fin 1, Fin 1], [Fin 1, Fin 1]]],
            output_arc_counts_null := Some []\<rparr>"

text \<open>
  Prototypes for the builder: a letter model with the transition matrix of line 548 and
  a silence model with that of line 583, both with uniform emissions over 256 symbols.
\<close>

definition ex_letter :: hmm where
  "ex_letter =
     \<lparr>num_states = 3, num_outputs = 256,
      transitions = transition_prob_matrix,
      emissions = Dest (replicate 256 (replicate 3 (Fin (1 / 256)))),
      non_null_arcs = [], null_arcs = [], topo_order = [],
      output_arc_counts = None, output_arc_counts_null = None\<rparr>"

definition ex_silence :: hmm where
  "ex_silence =
     \<lparr>num_states = 5, num_outputs = 256,
      transitions =
        [[Fin (1 / 4), Fin (1 / 4), Fin (1 / 4), Fin (1 / 4), Fin 0],
         [Fin 0, Fin (1 / 4), Fin (1 / 4), Fin (1 / 4), Fin (1 / 4)],
         [Fin 0, Fin 0, Fin (1 / 4), Fin (1 / 4), Fin (1 / 4)],
         [Fin 0, Fin 0, Fin 0, Fin (1 / 4), Fin (1 / 4)],
         [Fin 0, Fin 0, Fin 0, Fin 0, Fin (3 / 4)]],
      emissions = Dest (replicate 256 (replicate 5 (Fin (1 / 256)))),
      non_null_arcs = [], null_arcs = [], topo_order = [],
      output_arc_counts = None, output_arc_counts_null = None\<rparr>"

definition ex_letters :: "char \<Rightarrow> hmm option" where
  "ex_letters c = (if c \<in> set ''abcdefghijlmnoprstuvwxy'' then Some ex_letter else None)"

text \<open>
  A model with one null arc, from state 0 to state 1, holding the counts of a pass:
  every count lies on an arc into state 0, and the null arc was taken twice.
\<close>

definition ex_null :: hmm where
  "ex_null =
     \<lparr>num_states = 2, num_outputs = 2,
      transitions = [[Fin (1 / 2), Fin 0], [Fin (1 / 2), Fin (1 / 2)]],
      emissions = Dest [[Fin (1 / 2), Fin (1 / 2)], [Fin (1 / 2), Fin (1 / 2)]],
      non_null_arcs = [(0, 0), (1, 0), (1, 1)],
      null_arcs = [(0, [(1, Fin (1 / 2))])],
      topo_order = [0, 1],
      output_arc_counts =
        Some [[[Fin 1, Fin 0], [Fin 3, Fin 0]], [[Fin 1, Fin 0], [Fin 1, Fin 0]]],
      output_arc_counts_null = Some [(0, [(1, Fin 2)])]\<rparr>"

section \<open>The re-estimation formula in the words of the specification\<close>

text \<open>
  The emission table the specification describes, keyed by symbol and destination
  state: the counts of symbol \<open>k\<close> into state \<open>j\<close> summed over the origins, divided
  by that sum summed over the symbols. It is stated here to be compared with what
  \<open>update_params\<close> computes.
\<close>

definition spec_emission :: "nat \<Rightarrow> mat list \<Rightarrow> nat \<Rightarrow> nat \<Rightarrow> fl" where
  "spec_emission S C k j =
     fdiv (fsum (map (\<lambda>i. C ! k ! i ! j) [0..<S]))
          (fsum (map (\<lambda>M. fsum (map (\<lambda>i. M ! i ! j) [0..<S])) C))"

definition spec_emissions :: "nat \<Rightarrow> mat list \<Rightarrow> emis" where
  "spec_emissions S C =
     Dest (map (\<lambda>k. map (\<lambda>j. nan_to_num (spec_emission S C k j)) [0..<S]) [0..<length C])"

section \<open>Well-formed counts and shapes\<close>

text \<open>
  Counts that are sums of products of probabilities are finite and not negative; the
  accumulator is a stack of \<open>S \<times> S\<close> matrices, the transition matrix is \<open>S \<times> S\<close>.
\<close>

fun nonneg :: "fl \<Rightarrow> bool" where
  "nonneg (Fin a) = (0 \<le> a)"
| "nonneg _ = False"

definition counts_nonneg :: "mat list \<Rightarrow> bool" where
  "counts_nonneg C = list_all (list_all (list_all nonneg)) C"

definition counts_shape :: "nat \<Rightarrow> mat list \<Rightarrow> bool" where
  "counts_shape S C = list_all (\<lambda>M. length M = S \<and> list_all (\<lambda>r. length r = S) M) C"

definition square :: "nat \<Rightarrow> mat \<Rightarrow> bool" where
  "square S T = (length T = S \<and> list_all (\<lambda>r. length r = S) T)"

section \<open>The backward recurrence in the words of the specification\<close>

text \<open>
  The emitting contribution \<open>beta[t][i] = \<Sigma>_j transitions[i][j] \<cdot> emissions[obs[t]][j] \<cdot>
  beta[t+1][j]\<close>, for the row \<open>e = emissions[obs[t]]\<close> of a table keyed by symbol and
  destination state and the next row \<open>b = beta[t+1]\<close>.
\<close>

definition spec_beta_emit :: "nat \<Rightarrow> mat \<Rightarrow> vec \<Rightarrow> vec \<Rightarrow> vec" where
  "spec_beta_emit S T e b =
     map (\<lambda>i. fsum (map (\<lambda>j. fmul (fmul (T ! i ! j) (e ! j)) (b ! j)) [0..<S])) [0..<S]"

text \<open>
  Row \<open>t\<close> from row \<open>t + 1\<close>: the emitting contribution, then the null arcs with the
  origins visited in reverse topological order, then the division by \<open>Q[t]\<close>.
\<close>

definition spec_beta_row :: "hmm \<Rightarrow> mat \<Rightarrow> int list \<Rightarrow> vec \<Rightarrow> nat \<Rightarrow> vec \<Rightarrow> vec" where
  "spec_beta_row m E data Q t b =
     vdiv (null_back (null_arcs m) (rev (topo_order m))
             (spec_beta_emit (num_states m) (transitions m) (E ! nat (data ! t)) b))
          (Q ! t)"



section \<open>Evaluation on concrete inputs\<close>

lemmas eval_defs = zeros_def zeros2_def zeros3_def ones_def vdiv_def madd_def fsum_def msum_def
  np_index_def np_T_def np_dot_def vmul_r_def vmul_l_def mmul_def mdiv_def bcast_def
  trans_emis_def reset_counters_def add_counts_def backward_def arc_posterior_def
  forward_alphas_def forward_step3_def forward_def sum_axis0_def fsub_def inf_times_def
  upt_rec numeral_2_eq_2 nth_Cons'

lemmas update_defs = update_params_def assert_emission_probs_def assert_transition_probs_def
  leaving_mass_def nc_row_def nc_get_def Let_def

lemma forward_backward_ex_hmm:
  "forward_backward ex_hmm [0] None None True =
     (ex_hmm\<lparr>output_arc_counts :=
               Some [[[Fin (1 / 8), Fin (1 / 8)], [Fin 0, Fin (1 / 4)]],
                     [[Fin 0, Fin 0], [Fin 0, Fin 0]]],
             output_arc_counts_null := Some []\<rparr>,
      [], Inl TypeError)"
  by (simp add: eval_defs ex_hmm_def forward_backward_def)

section \<open>What forward returns\<close>

lemma forward_result:
  "snd (snd (forward m d ip)) = Inr PyNone \<or> (\<exists>e. snd (snd (forward m d ip)) = Inl e)"
  by (auto simp: forward_def Let_def split: prod.splits sum.splits)

lemma forward_backward_raises: "\<exists>e. snd (snd (forward_backward m train ip ib u)) = Inl e"
proof (cases "forward m train ip")
  case (fields m1 out r)
  with forward_result[of m train ip] have "r = Inr PyNone \<or> (\<exists>e. r = Inl e)" by simp
  with fields show ?thesis by (auto simp: forward_backward_def)
qed

lemma forward_backward_state:
  "fst (forward_backward m train ip ib u) = fst (forward m train ip)"
proof (cases "forward m train ip")
  case (fields m1 out r)
  with forward_result[of m train ip] have "r = Inr PyNone \<or> (\<exists>e. r = Inl e)" by simp
  with fields show ?thesis by (auto simp: forward_backward_def)
qed

text \<open>
  Claim C1 (the forward pass computes the scaled trellis and returns it with the scale
  factors, so that \<open>forward_backward\<close> can return the two trellises and the scale
  factors). The code does not: on the two-state model and the sequence \<open>[0]\<close> the call
  of \<open>forward\<close> raises nothing and yields \<open>None\<close>, and \<open>forward_backward\<close>, which
  unpacks that value, ends in a TypeError. No model and no sequence fare better:
  \<open>forward_backward\<close> never returns.
\<close>

theorem forward_yields_none_and_forward_backward_raises:
  "snd (snd (forward ex_hmm [0] None)) = Inr PyNone
   \<and> snd (snd (forward_backward ex_hmm [0] None None True)) = Inl TypeError
   \<and> (\<forall>m train ip ib u. \<exists>e. snd (snd (forward_backward m train ip ib u)) = Inl e)"
  using forward_backward_raises by (simp add: eval_defs ex_hmm_def forward_backward_def)

text \<open>
  Claim C9 (the scaled forward recursion yields, at every time step, the same state
  posteriors as the log-domain one). The scaled recursion does not run: for the
  sequence \<open>[0, 0]\<close> the trellis \<open>forward\<close> builds has the normalised initial
  distribution in row 0 and zeros in rows 1 and 2, which are no distribution at all,
  and the method hands nothing back.
\<close>

theorem forward_trellis_rows_stay_zero:
  "forward_alphas ex_hmm [0, 0] None =
     Inr ([[Fin (1 / 2), Fin (1 / 2)], [Fin 0, Fin 0], [Fin 0, Fin 0]], [Fin 1, Fin 1, Fin 1])
   \<and> snd (snd (forward ex_hmm [0, 0] None)) = Inr PyNone"
  by (simp add: eval_defs ex_hmm_def)

text \<open>
  Claim C10 (with \<open>update_params\<close> left at its default, every call of
  \<open>forward_backward\<close> also runs the M-step and overwrites transitions, emissions and
  null arcs). On the two-state model and the sequence \<open>[0]\<close> the call ends in the
  TypeError before line 497 is reached: transitions, emissions and null arcs are what
  they were, while \<open>update_params\<close> run on the model the call left behind would have
  replaced the emission table by a three-dimensional one.
\<close>

theorem forward_backward_skips_update_params:
  "transitions (fst (forward_backward ex_hmm [0] None None True)) = transitions ex_hmm
   \<and> emissions (fst (forward_backward ex_hmm [0] None None True)) = emissions ex_hmm
   \<and> null_arcs (fst (forward_backward ex_hmm [0] None None True)) = null_arcs ex_hmm
   \<and> snd (snd (forward_backward ex_hmm [0] None None True)) = Inl TypeError
   \<and> emissions (fst (update_params (fst (forward_backward ex_hmm [0] None None True))))
       = Arc [[[Fin 1, Fin 1], [Fin 0, Fin 1]], [[Fin 0, Fin 0], [Fin 0, Fin 0]]]"
  unfolding forward_backward_ex_hmm by (simp add: eval_defs update_defs ex_hmm_def)

text \<open>
  Claim C8 (before a posterior matrix is added to the accumulators the engine asserts
  that its total is 1 within the tolerance, and the assertion fails when the total is
  too large and when it is too small). On the two-state model and the sequence \<open>[0]\<close>
  the posterior matrix of \<open>forward\<close> has total one half; line 360 adds it to the
  accumulators with no assertion, and \<open>forward_backward\<close> ends in the TypeError, not
  in an AssertionError. The assertion of line 486 itself, run on the trellises of that
  call, lets the same matrix through: it bounds the total from above only.
\<close>

theorem posterior_of_total_one_half_is_accumulated:
  "forward_step3 ex_hmm [0] None =
     (reset_counters ex_hmm, Inr (0, [[Fin (1 / 8), Fin (1 / 8)], [Fin 0, Fin (1 / 4)]]))
   \<and> msum [[Fin (1 / 8), Fin (1 / 8)], [Fin 0, Fin (1 / 4)]] = Fin (1 / 2)
   \<and> output_arc_counts (fst (forward_backward ex_hmm [0] None None True))
       = Some [[[Fin (1 / 8), Fin (1 / 8)], [Fin 0, Fin (1 / 4)]], [[Fin 0, Fin 0], [Fin 0, Fin 0]]]
   \<and> snd (snd (forward_backward ex_hmm [0] None None True)) = Inl TypeError
   \<and> emit_accumulate [[Fin (1 / 2), Fin (1 / 2)], [Fin 0, Fin 0]]
         [[Fin (1 / 2), Fin (1 / 2)], [Fin 1, Fin 1]] [0] [1] (reset_counters ex_hmm)
       = ((reset_counters ex_hmm)\<lparr>output_arc_counts :=
             Some [[[Fin (1 / 8), Fin (1 / 8)], [Fin 0, Fin (1 / 4)]],
                   [[Fin 0, Fin 0], [Fin 0, Fin 0]]]\<rparr>, Inr ())"
  unfolding forward_backward_ex_hmm by (simp add: eval_defs ex_hmm_def)

section \<open>The accumulators across calls\<close>

lemma trans_emis_counters [simp]:
  "trans_emis (m\<lparr>output_arc_counts := c\<rparr>) x = trans_emis m x"
  "trans_emis (m\<lparr>output_arc_counts_null := n\<rparr>) x = trans_emis m x"
  by (simp_all add: trans_emis_def split: emis.splits option.splits)

lemma backward_loop_counters [simp]:
  "backward_loop (m\<lparr>output_arc_counts := c\<rparr>) data Q ts B = backward_loop m data Q ts B"
  "backward_loop (m\<lparr>output_arc_counts_null := n\<rparr>) data Q ts B = backward_loop m data Q ts B"
  by (induction ts arbitrary: B; simp split: sum.splits)+

lemma forward_alphas_counters [simp]:
  "forward_alphas (m\<lparr>output_arc_counts := c\<rparr>) data ip = forward_alphas m data ip"
  "forward_alphas (m\<lparr>output_arc_counts_null := n\<rparr>) data ip = forward_alphas m data ip"
  by (simp_all add: forward_alphas_def Let_def cong: sum.case_cong option.case_cong if_cong)

lemma backward_counters [simp]:
  "backward (m\<lparr>output_arc_counts := c\<rparr>) data Q ib = backward m data Q ib"
  "backward (m\<lparr>output_arc_counts_null := n\<rparr>) data Q ib = backward m data Q ib"
  by (simp_all add: backward_def Let_def cong: sum.case_cong option.case_cong if_cong)

lemma reset_counters_counters [simp]:
  "reset_counters (m\<lparr>output_arc_counts := c\<rparr>) = reset_counters m"
  "reset_counters (m\<lparr>output_arc_counts_null := n\<rparr>) = reset_counters m"
  by (simp_all add: reset_counters_def)

lemma forward_step3_reset:
  "snd (forward_step3 m data ip) = Inr r \<Longrightarrow> fst (forward_step3 m data ip) = reset_counters m"
  by (auto simp: forward_step3_def Let_def split: sum.splits prod.splits option.splits)

lemma forward_step3_counters:
  assumes "snd (forward_step3 m data ip) = Inr r"
  shows "forward_step3 (m\<lparr>output_arc_counts := c, output_arc_counts_null := n\<rparr>) data ip
         = forward_step3 m data ip"
proof (cases "forward_alphas m data ip")
  case (Inl e)
  with assms show ?thesis by (simp add: forward_step3_def)
next
  case (Inr aq)
  obtain alphas Q where aq: "aq = (alphas, Q)" by (cases aq)
  show ?thesis
  proof (cases "backward m data Q (Some (ones (num_states m)))")
    case (Inl e)
    with assms Inr aq show ?thesis by (simp add: forward_step3_def)
  next
    case betas: (Inr betas)
    with Inr aq show ?thesis by (simp add: forward_step3_def)
  qed
qed

lemma forward_counters:
  assumes "snd (snd (forward m data ip)) = Inr v"
  shows "forward (m\<lparr>output_arc_counts := c, output_arc_counts_null := n\<rparr>) data ip
         = forward m data ip"
proof -
  from assms obtain r where "snd (forward_step3 m data ip) = Inr r"
    by (auto simp: forward_def Let_def split: sum.splits prod.splits)
  then show ?thesis by (simp add: forward_def forward_step3_counters)
qed

text \<open>
  Claim C5 as stated (a call of the engine adds to the accumulators it finds, so the
  counts of the sequences processed before it are preserved) fails: the model
  \<open>ex_counted\<close> holds the count 1 at every arc and symbol, and after a call on the
  sequence \<open>[0]\<close> it holds the posterior matrix of that call alone, the counts of
  symbol 1 being back at zero.
\<close>

theorem earlier_counts_are_lost:
  "output_arc_counts ex_counted
     = Some [[[Fin 1, Fin 1], [Fin 1, Fin 1]], [[Fin 1, Fin 1], [Fin 1, Fin 1]]]
   \<and> output_arc_counts (fst (forward_backward ex_counted [0] None None False))
     = Some [[[Fin (1 / 8), Fin (1 / 8)], [Fin 0, Fin (1 / 4)]], [[Fin 0, Fin 0], [Fin 0, Fin 0]]]"
  by (simp add: eval_defs ex_hmm_def ex_counted_def forward_backward_def)

text \<open>
  Claim C5 as amended: the engine zeroes both accumulators itself, inside every call
  (\<open>forward\<close> calls \<open>reset_counters\<close> at line 347, before it adds its posterior
  matrix). Whenever the forward pass of a call runs to its end, the model the call
  leaves behind is the same whatever the accumulators held before the call, and the
  null-arc accumulator is empty: nothing of earlier sequences is preserved.
\<close>

theorem accumulators_are_reset_by_every_call:
  assumes "snd (snd (forward m train ip)) = Inr PyNone"
  shows "fst (forward_backward (m\<lparr>output_arc_counts := c, output_arc_counts_null := n\<rparr>)
                train ip ib u)
         = fst (forward_backward m train ip ib u)
       \<and> output_arc_counts_null (fst (forward_backward m train ip ib u)) = Some []"
proof -
  obtain r where r: "snd (forward_step3 m train ip) = Inr r"
    using assms by (auto simp: forward_def Let_def split: sum.splits prod.splits)
  have "output_arc_counts_null (fst (forward m train ip)) = Some []"
    using r forward_step3_reset[OF r]
    by (cases "forward_step3 m train ip")
       (auto simp: forward_def Let_def reset_counters_def split: sum.splits prod.splits)
  then show ?thesis
    by (simp add: forward_backward_state forward_counters[OF assms])
qed

theorem accumulators_are_reset_by_every_call_witness:
  "snd (snd (forward ex_hmm [0] None)) = Inr PyNone
   \<and> fst (forward_backward ex_counted [0] None None False)
       = fst (forward_backward ex_hmm [0] None None False)
   \<and> output_arc_counts_null (fst (forward_backward ex_hmm [0] None None False)) = Some []"
proof -
  have h: "snd (snd (forward ex_hmm [0] None)) = Inr PyNone"
    by (simp add: eval_defs ex_hmm_def)
  show ?thesis
    using h accumulators_are_reset_by_every_call [OF h, where
        c = "Some [[[Fin 1, Fin 1], [Fin 1, Fin 1]], [[Fin 1, Fin 1], [Fin 1, Fin 1]]]"
        and n = "Some []" and ib = None and u = False]
    by (simp add: ex_counted_def)
qed

section \<open>A total that is not a number\<close>

text \<open>
  Claim C3 as stated (a total probability that is not a number makes the engine
  report an error, and nothing is added to the counts) fails: with the initial
  distribution \<open>[0, 0]\<close> the normalisation of line 322 divides zero by zero, every
  entry of the posterior matrix is not-a-number, and \<open>forward\<close> prints its warning,
  raises nothing and adds the matrix to the accumulators.
\<close>

theorem nan_total_raises_nothing:
  "forward_step3 ex_hmm [0] (Some [Fin 0, Fin 0]) =
     (reset_counters ex_hmm, Inr (0, [[NaN, NaN], [NaN, NaN]]))
   \<and> isnan (msum [[NaN, NaN], [NaN, NaN]])
   \<and> snd (forward ex_hmm [0] (Some [Fin 0, Fin 0])) = ([NaNWarning 1], Inr PyNone)
   \<and> output_arc_counts (fst (forward ex_hmm [0] (Some [Fin 0, Fin 0])))
       = Some [[[NaN, NaN], [NaN, NaN]], [[Fin 0, Fin 0], [Fin 0, Fin 0]]]"
  by (simp add: eval_defs ex_hmm_def)

text \<open>
  Claim C3 as amended: whenever the total of the posterior matrix that \<open>forward\<close>
  computes is not a number (and the last symbol indexes the accumulator), the method
  prints one warning naming the time index, raises no error and returns normally, and
  the posterior matrix, not-a-number entries included, is added to the freshly zeroed
  accumulator of that symbol.
\<close>

theorem nan_total_is_printed_and_accumulated:
  assumes "forward_step3 m data ip = (m1, Inr (obs, step3))"
    and "isnan (msum step3)"
    and "np_index (num_outputs m) obs = Some k"
  shows "forward m data ip =
           (m1\<lparr>output_arc_counts :=
                 Some ((zeros3 (num_outputs m) (num_states m) (num_states m))
                         [k := madd (zeros2 (num_states m) (num_states m)) step3])\<rparr>,
            [NaNWarning (length data)], Inr PyNone)"
proof -
  have m1: "m1 = reset_counters m"
    using forward_step3_reset[of m data ip "(obs, step3)"] assms(1) by simp
  have k: "k < num_outputs m"
    using assms(3) by (auto simp: np_index_def split: if_splits)
  show ?thesis
    using assms k by (simp add: forward_def m1 add_counts_def reset_counters_def zeros3_def)
qed

theorem nan_total_is_printed_and_accumulated_witness:
  "forward_step3 ex_hmm [0] (Some [Fin 0, Fin 0])
     = (reset_counters ex_hmm, Inr (0, [[NaN, NaN], [NaN, NaN]]))
   \<and> isnan (msum [[NaN, NaN], [NaN, NaN]])
   \<and> np_index (num_outputs ex_hmm) 0 = Some 0
   \<and> forward ex_hmm [0] (Some [Fin 0, Fin 0]) =
        ((reset_counters ex_hmm)\<lparr>output_arc_counts :=
            Some [[[NaN, NaN], [NaN, NaN]], [[Fin 0, Fin 0], [Fin 0, Fin 0]]]\<rparr>,
         [NaNWarning 1], Inr PyNone)"
proof -
  have a: "forward_step3 ex_hmm [0] (Some [Fin 0, Fin 0])
             = (reset_counters ex_hmm, Inr (0, [[NaN, NaN], [NaN, NaN]]))"
    by (simp add: eval_defs ex_hmm_def)
  have b: "isnan (msum [[NaN, NaN], [NaN, NaN]])"
    by (simp add: msum_def fsum_def)
  have c: "np_index (num_outputs ex_hmm) 0 = Some 0"
    by (simp add: np_index_def ex_hmm_def)
  show ?thesis
    using a b c nan_total_is_printed_and_accumulated [OF a b c]
    by (simp add: ex_hmm_def zeros3_def zeros2_def zeros_def madd_def numeral_2_eq_2)
qed

section \<open>Re-estimation\<close>

lemma fsum_Nil [simp]: "fsum [] = Fin 0"
  by (simp add: fsum_def)

lemma fsum_Cons [simp]: "fsum (x # xs) = fadd x (fsum xs)"
  by (simp add: fsum_def)

lemma fsum_nonneg:
  "list_all nonneg xs \<Longrightarrow> \<exists>s. fsum xs = Fin s \<and> 0 \<le> s \<and> (s = 0 \<longrightarrow> (\<forall>x\<in>set xs. x = Fin 0))"
proof (induction xs)
  case Nil
  then show ?case by simp
next
  case (Cons x xs)
  then obtain s where s: "fsum xs = Fin s" "0 \<le> s" "s = 0 \<longrightarrow> (\<forall>x\<in>set xs. x = Fin 0)"
    by auto
  from Cons.prems obtain a where a: "x = Fin a" "0 \<le> a"
    by (cases x) auto
  have "fsum (x # xs) = Fin (a + s)" using a s by simp
  moreover have "0 \<le> a + s" using a s by simp
  moreover have "a + s = 0 \<longrightarrow> (\<forall>y\<in>set (x # xs). y = Fin 0)"
    using a s by auto
  ultimately show ?case by blast
qed

lemma fsum_zero_entries:
  "list_all nonneg xs \<Longrightarrow> fsum xs = Fin 0 \<Longrightarrow> x \<in> set xs \<Longrightarrow> x = Fin 0"
  using fsum_nonneg[of xs] by auto

lemma sum_axis0_nth:
  "i < r \<Longrightarrow> j < c \<Longrightarrow> sum_axis0 r c Cs ! i ! j = fsum (map (\<lambda>M. M ! i ! j) Cs)"
  by (simp add: sum_axis0_def)

lemma sum_axis0_row:
  "i < r \<Longrightarrow> sum_axis0 r c Cs ! i = map (\<lambda>j. fsum (map (\<lambda>M. M ! i ! j) Cs)) [0..<c]"
  by (simp add: sum_axis0_def)

lemma sum_axis0_length [simp]: "length (sum_axis0 r c Cs) = r"
  by (simp add: sum_axis0_def)

lemma sum_axis0_row_length [simp]: "i < r \<Longrightarrow> length (sum_axis0 r c Cs ! i) = c"
  by (simp add: sum_axis0_def)

lemma mdiv_nth:
  "i < length A \<Longrightarrow> i < length B \<Longrightarrow> j < length (A ! i) \<Longrightarrow> j < length (B ! i)
   \<Longrightarrow> mdiv A B ! i ! j = fdiv (A ! i ! j) (B ! i ! j)"
  by (simp add: mdiv_def)

lemma mdiv_length: "length (mdiv A B) = min (length A) (length B)"
  by (simp add: mdiv_def)

lemma mdiv_row_length:
  "i < length A \<Longrightarrow> i < length B
   \<Longrightarrow> length (mdiv A B ! i) = min (length (A ! i)) (length (B ! i))"
  by (simp add: mdiv_def)

lemma update_params_emissions:
  "output_arc_counts m = Some C \<Longrightarrow>
   emissions (fst (update_params m)) =
     Arc (map (\<lambda>M. map (map nan_to_num)
                     (mdiv M (sum_axis0 (num_states m) (num_states m) C))) C)"
  by (simp add: update_params_def Let_def split: sum.splits option.splits)

lemma counts_shapeD:
  "counts_shape S C \<Longrightarrow> k < length C \<Longrightarrow> length (C ! k) = S"
  "counts_shape S C \<Longrightarrow> k < length C \<Longrightarrow> i < S \<Longrightarrow> length (C ! k ! i) = S"
  by (auto simp: counts_shape_def list_all_length)

lemma update_params_returns:
  assumes "update_params m = (m', Inr ())"
  shows "\<exists>C nc. output_arc_counts m = Some C \<and> output_arc_counts_null m = Some nc
     \<and> transitions m' =
          map (\<lambda>ix. map (\<lambda>iy. fdiv (sum_axis0 (num_states m) (num_states m) C ! ix ! iy)
                                 (leaving_mass (sum_axis0 (num_states m) (num_states m) C) nc ix))
                         [0..<length (transitions m ! ix)])
              [0..<length (transitions m)]
     \<and> null_arcs m' =
          map (\<lambda>(ix, row).
                 (ix, map (\<lambda>(iy, p). (iy, fdiv (nc_get nc ix iy)
                        (leaving_mass (sum_axis0 (num_states m) (num_states m) C) nc ix))) row))
              (null_arcs m)"
  using assms
  by (auto simp: update_params_def Let_def split: sum.splits option.splits)

lemma map_of_map_keyed:
  "map_of (map (\<lambda>(k, v). (k, f k v)) xs) k = map_option (f k) (map_of xs k)"
  by (induction xs) auto

lemma map_of_map_key_only:
  "map_of row d = Some p \<Longrightarrow> map_of (map (\<lambda>(iy, p). (iy, g iy)) row) d = Some (g d)"
  by (induction row) (auto split: if_splits)

lemma update_params_ex_null:
  "update_params ex_null =
     (ex_null\<lparr>transitions := [[Fin (1 / 2), Fin 0], [Fin 1, Fin 0]],
              emissions := Arc [[[Fin (1 / 2), Fin 0], [Fin (3 / 4), Fin 0]],
                                [[Fin (1 / 2), Fin 0], [Fin (1 / 4), Fin 0]]],
              null_arcs := [(0, [(1, Fin (1 / 2))])]\<rparr>,
      Inr ())"
  by (simp add: eval_defs update_defs ex_null_def)

text \<open>
  Claim C2 as stated (the new emission table is keyed by symbol and destination state
  only, the counts being summed over the origins) fails: on the counts of \<open>ex_null\<close>
  the table \<open>update_params\<close> leaves is three-dimensional, and symbol 0 on arrival in
  state 0 gets one half from origin 0 and three quarters from origin 1, where the
  formula of the specification gives two thirds for both.
\<close>

theorem emissions_differ_by_origin:
  "emissions (fst (update_params ex_null))
     = Arc [[[Fin (1 / 2), Fin 0], [Fin (3 / 4), Fin 0]],
            [[Fin (1 / 2), Fin 0], [Fin (1 / 4), Fin 0]]]
   \<and> spec_emissions 2 [[[Fin 1, Fin 0], [Fin 3, Fin 0]], [[Fin 1, Fin 0], [Fin 1, Fin 0]]]
     = Dest [[Fin (2 / 3), Fin 0], [Fin (1 / 3), Fin 0]]
   \<and> output_arc_counts ex_null
     = Some [[[Fin 1, Fin 0], [Fin 3, Fin 0]], [[Fin 1, Fin 0], [Fin 1, Fin 0]]]"
  by (simp add: eval_defs update_defs ex_null_def spec_emissions_def spec_emission_def)

text \<open>
  Claim C2 as amended: after re-estimation the emission table is keyed by symbol,
  origin and destination. The new probability of symbol \<open>k\<close> on the arc from \<open>i\<close> to
  \<open>j\<close> is the count of that symbol on that arc divided by the count of the arc summed
  over all symbols (with \<open>nan_to_num\<close> applied to the quotient), and on an arc whose
  total count is zero every emission is zero, the counts being finite and not
  negative.
\<close>

theorem update_params_emissions_by_arc:
  assumes C: "output_arc_counts m = Some C"
    and shape: "counts_shape (num_states m) C"
    and k: "k < length C" and i: "i < num_states m" and j: "j < num_states m"
  shows "\<exists>E. emissions (fst (update_params m)) = Arc E
           \<and> E ! k ! i ! j = nan_to_num (fdiv (C ! k ! i ! j) (fsum (map (\<lambda>M. M ! i ! j) C)))
           \<and> (counts_nonneg C \<longrightarrow> fsum (map (\<lambda>M. M ! i ! j) C) = Fin 0 \<longrightarrow> E ! k ! i ! j = Fin 0)"
proof -
  let ?S = "num_states m"
  let ?tot = "sum_axis0 ?S ?S C"
  let ?E = "map (\<lambda>M. map (map nan_to_num) (mdiv M ?tot)) C"
  have e: "emissions (fst (update_params m)) = Arc ?E"
    by (rule update_params_emissions[OF C])
  have len: "length (C ! k) = ?S" "length (C ! k ! i) = ?S"
    using counts_shapeD[OF shape k] i by auto
  have entry: "?E ! k ! i ! j = nan_to_num (fdiv (C ! k ! i ! j) (fsum (map (\<lambda>M. M ! i ! j) C)))"
    using k i j len by (simp add: mdiv_length mdiv_row_length mdiv_nth sum_axis0_nth)
  have zero: "?E ! k ! i ! j = Fin 0"
    if nn: "counts_nonneg C" and z: "fsum (map (\<lambda>M. M ! i ! j) C) = Fin 0"
  proof -
    have all: "list_all nonneg (map (\<lambda>M. M ! i ! j) C)"
      unfolding list_all_length
    proof (intro allI impI)
      fix n assume n: "n < length (map (\<lambda>M. M ! i ! j) C)"
      then have nC: "n < length C" by simp
      have "length (C ! n) = ?S" "length (C ! n ! i) = ?S"
        using counts_shapeD[OF shape nC] i by auto
      then have "nonneg (C ! n ! i ! j)"
        using nn nC i j by (auto simp: counts_nonneg_def list_all_length)
      then show "nonneg (map (\<lambda>M. M ! i ! j) C ! n)" using nC by simp
    qed
    have "C ! k ! i ! j \<in> set (map (\<lambda>M. M ! i ! j) C)"
      using k by (auto simp: in_set_conv_nth intro!: exI[of _ k])
    then have "C ! k ! i ! j = Fin 0"
      using fsum_zero_entries[OF all z] by blast
    then show ?thesis using entry z by simp
  qed
  show ?thesis using e entry zero by blast
qed

theorem update_params_emissions_by_arc_witness:
  "output_arc_counts ex_null
     = Some [[[Fin 1, Fin 0], [Fin 3, Fin 0]], [[Fin 1, Fin 0], [Fin 1, Fin 0]]]
   \<and> counts_shape (num_states ex_null)
        [[[Fin 1, Fin 0], [Fin 3, Fin 0]], [[Fin 1, Fin 0], [Fin 1, Fin 0]]]
   \<and> counts_nonneg [[[Fin 1, Fin 0], [Fin 3, Fin 0]], [[Fin 1, Fin 0], [Fin 1, Fin 0]]]
   \<and> (0::nat) < length [[[Fin 1, Fin 0], [Fin 3, Fin 0]], [[Fin 1, Fin 0], [Fin 1, Fin 0]]]
   \<and> 0 < num_states ex_null \<and> 1 < num_states ex_null
   \<and> fsum (map (\<lambda>M. M ! 0 ! 1)
        [[[Fin 1, Fin 0], [Fin 3, Fin 0]], [[Fin 1, Fin 0], [Fin 1, Fin 0]]]) = Fin 0
   \<and> (\<exists>E. emissions (fst (update_params ex_null)) = Arc E \<and> E ! 0 ! 0 ! 1 = Fin 0)"
proof -
  let ?C = "[[[Fin 1, Fin 0], [Fin 3, Fin 0]], [[Fin 1, Fin 0], [Fin 1, Fin 0]]]"
  have a: "output_arc_counts ex_null = Some ?C" by (simp add: ex_null_def)
  have b: "counts_shape (num_states ex_null) ?C" by (simp add: ex_null_def counts_shape_def)
  have c: "counts_nonneg ?C" by (simp add: counts_nonneg_def)
  have k: "(0::nat) < length ?C" by simp
  have i: "0 < num_states ex_null" and j: "1 < num_states ex_null" by (simp_all add: ex_null_def)
  have z: "fsum (map (\<lambda>M. M ! 0 ! 1) ?C) = Fin 0" by simp
  from update_params_emissions_by_arc [OF a b k i j] c z
  have "\<exists>E. emissions (fst (update_params ex_null)) = Arc E \<and> E ! 0 ! 0 ! 1 = Fin 0"
    by blast
  with a b c k i j z show ?thesis by blast
qed

text \<open>
  Claim C6: after re-estimation, the new probability of the emitting transition from
  \<open>i\<close> to \<open>j\<close> is the count of that arc summed over the symbols, divided by the total
  mass leaving \<open>i\<close> (the counts of all emitting arcs out of \<open>i\<close> plus the counts of the
  null arcs out of \<open>i\<close>), and the new probability of a null arc from \<open>i\<close> to \<open>d\<close> is
  its count divided by the same denominator.
\<close>

theorem update_params_shares_one_budget:
  assumes ret: "update_params m = (m', Inr ())"
    and C: "output_arc_counts m = Some C"
    and nc: "output_arc_counts_null m = Some nc"
    and sq: "square (num_states m) (transitions m)"
    and i: "i < num_states m"
  shows "(\<forall>j < num_states m. transitions m' ! i ! j =
            fdiv (fsum (map (\<lambda>M. M ! i ! j) C))
                 (fadd (fsum (map (\<lambda>j'. fsum (map (\<lambda>M. M ! i ! j') C)) [0..<num_states m]))
                       (fsum (map snd (nc_row nc i)))))
       \<and> (\<forall>row d p. map_of (null_arcs m) i = Some row \<longrightarrow> map_of row d = Some p \<longrightarrow>
            (\<exists>row'. map_of (null_arcs m') i = Some row'
               \<and> map_of row' d =
                   Some (fdiv (nc_get nc i d)
                     (fadd (fsum (map (\<lambda>j'. fsum (map (\<lambda>M. M ! i ! j') C)) [0..<num_states m]))
                           (fsum (map snd (nc_row nc i)))))))"
proof -
  let ?S = "num_states m"
  let ?ts = "sum_axis0 ?S ?S C"
  let ?den = "fadd (fsum (map (\<lambda>j'. fsum (map (\<lambda>M. M ! i ! j') C)) [0..<?S]))
                   (fsum (map snd (nc_row nc i)))"
  from update_params_returns[OF ret] C nc
  have T: "transitions m' =
          map (\<lambda>ix. map (\<lambda>iy. fdiv (?ts ! ix ! iy) (leaving_mass ?ts nc ix))
                         [0..<length (transitions m ! ix)])
              [0..<length (transitions m)]"
    and N: "null_arcs m' =
          map (\<lambda>(ix, row). (ix, map (\<lambda>(iy, p). (iy, fdiv (nc_get nc ix iy) (leaving_mass ?ts nc ix))) row))
              (null_arcs m)"
    by auto
  have den: "leaving_mass ?ts nc i = ?den"
    using i by (simp add: leaving_mass_def sum_axis0_row)
  have lenT: "length (transitions m) = ?S" "length (transitions m ! i) = ?S"
    using sq i by (auto simp: square_def list_all_length)
  have part1: "\<forall>j < ?S. transitions m' ! i ! j = fdiv (fsum (map (\<lambda>M. M ! i ! j) C)) ?den"
    using i lenT by (simp add: T den sum_axis0_nth)
  have part2: "\<exists>row'. map_of (null_arcs m') i = Some row'
               \<and> map_of row' d = Some (fdiv (nc_get nc i d) ?den)"
    if r: "map_of (null_arcs m) i = Some row" and d: "map_of row d = Some p" for row d p
  proof -
    have "map_of (null_arcs m') i =
            Some (map (\<lambda>(iy, p). (iy, fdiv (nc_get nc i iy) (leaving_mass ?ts nc i))) row)"
      unfolding N using r
      by (simp add: map_of_map_keyed[where f = "\<lambda>ix row. map (\<lambda>(iy, p). (iy, fdiv (nc_get nc ix iy) (leaving_mass ?ts nc ix))) row"])
    moreover have "map_of (map (\<lambda>(iy, p). (iy, fdiv (nc_get nc i iy) (leaving_mass ?ts nc i))) row) d
          = Some (fdiv (nc_get nc i d) ?den)"
      using map_of_map_key_only[OF d, of "\<lambda>iy. fdiv (nc_get nc i iy) (leaving_mass ?ts nc i)"]
      by (simp add: den)
    ultimately show ?thesis by blast
  qed
  show ?thesis using part1 part2 by blast
qed

theorem update_params_shares_one_budget_witness:
  "update_params ex_null =
     (ex_null\<lparr>transitions := [[Fin (1 / 2), Fin 0], [Fin 1, Fin 0]],
              emissions := Arc [[[Fin (1 / 2), Fin 0], [Fin (3 / 4), Fin 0]],
                                [[Fin (1 / 2), Fin 0], [Fin (1 / 4), Fin 0]]],
              null_arcs := [(0, [(1, Fin (1 / 2))])]\<rparr>,
      Inr ())
   \<and> output_arc_counts ex_null
       = Some [[[Fin 1, Fin 0], [Fin 3, Fin 0]], [[Fin 1, Fin 0], [Fin 1, Fin 0]]]
   \<and> output_arc_counts_null ex_null = Some [(0, [(1, Fin 2)])]
   \<and> square (num_states ex_null) (transitions ex_null)
   \<and> 0 < num_states ex_null
   \<and> fdiv (fsum (map (\<lambda>M. M ! 0 ! 0) [[[Fin 1, Fin 0], [Fin 3, Fin 0]], [[Fin 1, Fin 0], [Fin 1, Fin 0]]]))
        (fadd (fsum (map (\<lambda>j'. fsum (map (\<lambda>M. M ! 0 ! j')
                  [[[Fin 1, Fin 0], [Fin 3, Fin 0]], [[Fin 1, Fin 0], [Fin 1, Fin 0]]]))
                  [0..<num_states ex_null]))
              (fsum (map snd (nc_row [(0, [(1, Fin 2)])] 0))))
       = Fin (1 / 2)
   \<and> fdiv (nc_get [(0, [(1, Fin 2)])] 0 1)
        (fadd (fsum (map (\<lambda>j'. fsum (map (\<lambda>M. M ! 0 ! j')
                  [[[Fin 1, Fin 0], [Fin 3, Fin 0]], [[Fin 1, Fin 0], [Fin 1, Fin 0]]]))
                  [0..<num_states ex_null]))
              (fsum (map snd (nc_row [(0, [(1, Fin 2)])] 0))))
       = Fin (1 / 2)"
proof -
  let ?C = "[[[Fin 1, Fin 0], [Fin 3, Fin 0]], [[Fin 1, Fin 0], [Fin 1, Fin 0]]]"
  let ?m' = "ex_null\<lparr>transitions := [[Fin (1 / 2), Fin 0], [Fin 1, Fin 0]],
              emissions := Arc [[[Fin (1 / 2), Fin 0], [Fin (3 / 4), Fin 0]],
                                [[Fin (1 / 2), Fin 0], [Fin (1 / 4), Fin 0]]],
              null_arcs := [(0, [(1, Fin (1 / 2))])]\<rparr>"
  let ?den = "fadd (fsum (map (\<lambda>j'. fsum (map (\<lambda>M. M ! 0 ! j') ?C)) [0..<num_states ex_null]))
                   (fsum (map snd (nc_row [(0, [(1, Fin 2)])] 0)))"
  have up: "update_params ex_null = (?m', Inr ())" by (rule update_params_ex_null)
  have a: "output_arc_counts ex_null = Some ?C" by (simp add: ex_null_def)
  have b: "output_arc_counts_null ex_null = Some [(0, [(1, Fin 2)])]" by (simp add: ex_null_def)
  have sq: "square (num_states ex_null) (transitions ex_null)"
    by (simp add: ex_null_def square_def)
  have i: "0 < num_states ex_null" by (simp add: ex_null_def)
  have r: "map_of (null_arcs ex_null) 0 = Some [(1, Fin (1 / 2))]" by (simp add: ex_null_def)
  have d: "map_of [(1::nat, Fin (1 / 2))] 1 = Some (Fin (1 / 2))" by simp
  note th = update_params_shares_one_budget [OF up a b sq i]
  from th i have "transitions ?m' ! 0 ! 0 = fdiv (fsum (map (\<lambda>M. M ! 0 ! 0) ?C)) ?den"
    by blast
  moreover have "transitions ?m' ! 0 ! 0 = Fin (1 / 2)" by simp
  ultimately have t: "fdiv (fsum (map (\<lambda>M. M ! 0 ! 0) ?C)) ?den = Fin (1 / 2)"
    by simp
  from th r d obtain row' where
    row': "map_of (null_arcs ?m') 0 = Some row'"
      "map_of row' 1 = Some (fdiv (nc_get [(0, [(1, Fin 2)])] 0 1) ?den)"
    by blast
  have "map_of (null_arcs ?m') 0 = Some [(1, Fin (1 / 2))]" by simp
  with row'(1) have "row' = [(1, Fin (1 / 2))]" by simp
  with row'(2) have n01: "fdiv (nc_get [(0, [(1, Fin 2)])] 0 1) ?den = Fin (1 / 2)"
    by simp
  from up a b sq i t n01 show ?thesis by blast
qed

section \<open>The backward pass\<close>


lemma null_back_row_length [simp]: "length (null_back_row s row b) = length b"
  by (induction row arbitrary: b) auto

lemma null_back_length [simp]: "length (null_back na ss b) = length b"
  by (induction ss arbitrary: b) (auto split: option.splits)



lemma vmul_r_length [simp]: "length (vmul_r M v) = length M"
  by (simp add: vmul_r_def)


lemma spec_beta_emit_length [simp]: "length (spec_beta_emit S T e b) = S"
  by (simp add: spec_beta_emit_def)

lemma spec_beta_row_length [simp]: "length (spec_beta_row m E data Q t b) = num_states m"
  by (simp add: spec_beta_row_def vdiv_def)





section \<open>The composite model\<close>

lemma set_slice_length:
  "c0 + length b \<le> length row \<Longrightarrow> length (set_slice row c0 b) = length row"
  by (simp add: set_slice_def)

lemma set_slice_nth:
  "c0 + length b \<le> length row \<Longrightarrow> j < length row \<Longrightarrow>
   set_slice row c0 b ! j =
     (if j < c0 then row ! j else if j < c0 + length b then b ! (j - c0) else row ! j)"
  by (auto simp: set_slice_def nth_append)

lemma set_block_length [simp]: "length (set_block M r0 c0 B) = length M"
  by (simp add: set_block_def)

lemma set_block_nth:
  "i < length M \<Longrightarrow>
   set_block M r0 c0 B ! i =
     (if r0 \<le> i \<and> i < r0 + length B then set_slice (M ! i) c0 (B ! (i - r0)) else M ! i)"
  by (simp add: set_block_def)

lemma bcast2_shape:
  assumes "bcast2 n k B = Inr B'"
  shows "length B' = n \<and> (\<forall>i < n. length (B' ! i) = k)"
  using assms by (auto simp: bcast2_def split: if_splits)

lemma set_block_square:
  assumes sq: "square n M" and B: "\<forall>i < length B. length (B ! i) = k" and c: "c0 + k \<le> n"
  shows "square n (set_block M r0 c0 B)"
  using assms
  by (auto simp: square_def list_all_length set_block_nth set_slice_length)

lemma copy_letters_square:
  "copy_letters w L c T E = Inr (T2, E2) \<Longrightarrow> square n T \<Longrightarrow> c + 3 * length w \<le> n
   \<Longrightarrow> square n T2"
proof (induction w arbitrary: c T E)
  case Nil
  then show ?case by simp
next
  case (Cons a w)
  from Cons.prems(1) obtain p TB EB where
    p: "L a = Some p" and TB: "bcast2 3 3 (transitions p) = Inr TB"
    and EB: "emis_block 256 3 (emissions p) = Inr EB"
    and rest: "copy_letters w L (c + 3) (set_block T c c TB) (set_block E 0 c EB) = Inr (T2, E2)"
    by (auto split: option.splits sum.splits)
  have "square n (set_block T c c TB)"
    using set_block_square[OF Cons.prems(2), of TB 3 c c] bcast2_shape[OF TB] Cons.prems(3)
    by simp
  from Cons.IH[OF rest this] Cons.prems(3) show ?case by simp
qed

lemma copy_letters_rows_below:
  "copy_letters w L c T E = Inr (T2, E2) \<Longrightarrow> i < c \<Longrightarrow> i < length T \<Longrightarrow> T2 ! i = T ! i"
proof (induction w arbitrary: c T E)
  case Nil
  then show ?case by simp
next
  case (Cons a w)
  from Cons.prems(1) obtain p TB EB where
    rest: "copy_letters w L (c + 3) (set_block T c c TB) (set_block E 0 c EB) = Inr (T2, E2)"
    by (auto split: option.splits sum.splits)
  from Cons.IH[OF rest] Cons.prems(2,3) show ?case by (simp add: set_block_nth)
qed

text \<open>What one pass of the loop writes into row i.\<close>

lemma letter_row_length [simp]: "length (letter_row n i T) = length T"
  by (simp add: letter_row_def Let_def)

lemma letter_row_other: "j \<noteq> i \<Longrightarrow> letter_row n i T ! j = T ! j"
  by (simp add: letter_row_def Let_def)

lemma fold_letter_row_length [simp]: "length (fold (letter_row n) xs T) = length T"
  by (induction xs arbitrary: T) auto

lemma fold_letter_row_other:
  "j \<notin> set xs \<Longrightarrow> fold (letter_row n) xs T ! j = T ! j"
  by (induction xs arbitrary: T) (auto simp: letter_row_other)

lemma letter_row_same_row:
  "T ! i = T' ! i \<Longrightarrow> i < length T \<Longrightarrow> i < length T'
   \<Longrightarrow> letter_row n i T ! i = letter_row n i T' ! i"
  by (simp add: letter_row_def Let_def)

lemma fold_letter_row_nth:
  "a \<le> i \<Longrightarrow> i < b \<Longrightarrow> i < length T
   \<Longrightarrow> fold (letter_row n) [a..<b] T ! i = letter_row n i T ! i"
proof (induction "b - a" arbitrary: a T)
  case 0
  then show ?case by simp
next
  case (Suc d)
  then have ab: "a < b" by simp
  have up: "[a..<b] = a # [Suc a..<b]" using ab by (simp add: upt_rec)
  show ?case
  proof (cases "i = a")
    case True
    have "fold (letter_row n) [a..<b] T ! i = fold (letter_row n) [Suc a..<b] (letter_row n a T) ! a"
      using True up by simp
    also have "\<dots> = letter_row n a T ! a"
      by (rule fold_letter_row_other) simp
    finally show ?thesis using True by simp
  next
    case False
    then have ia: "Suc a \<le> i" using Suc.prems by simp
    have d: "d = b - Suc a" using Suc.hyps(2) by simp
    have len: "i < length (letter_row n a T)" using Suc.prems by simp
    have "fold (letter_row n) [a..<b] T ! i = fold (letter_row n) [Suc a..<b] (letter_row n a T) ! i"
      using up by simp
    also have "\<dots> = letter_row n i (letter_row n a T) ! i"
      by (rule Suc.hyps(1)[OF d ia Suc.prems(2) len])
    also have "\<dots> = letter_row n i T ! i"
      by (rule letter_row_same_row) (use False Suc.prems in \<open>simp_all add: letter_row_other\<close>)
    finally show ?thesis .
  qed
qed

lemma letter_row_last_state:
  assumes i: "i < length T" and len: "length (T ! i) = n" and i1: "i + 1 < n - 5"
    and m: "(i - 5) mod 3 = 2"
  shows "letter_row n i T ! i ! (i + 1) = Fin (2 / 10)"
    and "letter_row n i T ! i ! i = Fin (8 / 10)"
  using assms by (simp_all add: letter_row_def Let_def)

lemma builder_parts:
  assumes ok: "initialize_combined_hmm word L sil = Inr h"
  shows "\<exists>ST SE T2 E2.
           bcast2 5 5 (transitions sil) = Inr ST
         \<and> copy_letters word L 5
              (set_block (zeros2 (10 + 3 * length word) (10 + 3 * length word)) 0 0 ST)
              (set_block (zeros2 256 (10 + 3 * length word)) 0 0 SE) = Inr (T2, E2)
         \<and> transitions h =
              set_block (fold (letter_row (10 + 3 * length word)) [5..<5 + 3 * length word] T2)
                (5 + 3 * length word) (5 + 3 * length word) ST"
proof -
  obtain ST where ST: "bcast2 5 5 (transitions sil) = Inr ST"
    using ok by (cases "bcast2 5 5 (transitions sil)")
      (simp_all add: initialize_combined_hmm_def Let_def)
  obtain SE where SE: "emis_block 256 5 (emissions sil) = Inr SE"
    using ok ST by (cases "emis_block 256 5 (emissions sil)")
      (simp_all add: initialize_combined_hmm_def Let_def)
  let ?cl = "copy_letters word L 5
              (set_block (zeros2 (10 + 3 * length word) (10 + 3 * length word)) 0 0 ST)
              (set_block (zeros2 256 (10 + 3 * length word)) 0 0 SE)"
  obtain TE where TE: "?cl = Inr TE"
    using ok ST SE by (cases ?cl) (simp_all add: initialize_combined_hmm_def Let_def)
  obtain T2 E2 where p: "TE = (T2, E2)" by (cases TE)
  have "transitions h =
          set_block (fold (letter_row (10 + 3 * length word)) [5..<5 + 3 * length word] T2)
            (5 + 3 * length word) (5 + 3 * length word) ST"
    using ok ST SE TE p by (auto simp: initialize_combined_hmm_def Let_def)
  with ST TE p show ?thesis by blast
qed

lemma zeros2_square: "square n (zeros2 n n)"
  by (simp add: square_def zeros2_def zeros_def list_all_length)

lemma builder_hand_off:
  assumes ok: "initialize_combined_hmm word L sil = Inr h" and k: "k + 1 < length word"
  shows "transitions h ! (7 + 3 * k) ! (8 + 3 * k) = Fin (2 / 10)
       \<and> transitions h ! (7 + 3 * k) ! (7 + 3 * k) = Fin (8 / 10)"
proof -
  let ?n = "10 + 3 * length word"
  let ?i = "7 + 3 * k"
  from builder_parts[OF ok] obtain ST SE T2 E2 where
    ST: "bcast2 5 5 (transitions sil) = Inr ST"
    and cl: "copy_letters word L 5 (set_block (zeros2 ?n ?n) 0 0 ST)
               (set_block (zeros2 256 ?n) 0 0 SE) = Inr (T2, E2)"
    and T: "transitions h = set_block (fold (letter_row ?n) [5..<5 + 3 * length word] T2)
               (5 + 3 * length word) (5 + 3 * length word) ST"
    by blast
  have sq1: "square ?n (set_block (zeros2 ?n ?n) 0 0 ST)"
    using set_block_square[OF zeros2_square, of ST 5 0 ?n 0] bcast2_shape[OF ST] by simp
  have sq2: "square ?n T2"
    using copy_letters_square[OF cl sq1] by simp
  have i: "?i < 5 + 3 * length word" "5 \<le> ?i" "?i < ?n" using k by auto
  have lenr: "?i < length T2" "length (T2 ! ?i) = ?n"
    using sq2 i by (auto simp: square_def list_all_length)
  have "transitions h ! ?i = fold (letter_row ?n) [5..<5 + 3 * length word] T2 ! ?i"
    unfolding T using i lenr by (subst set_block_nth) simp_all
  also have "\<dots> = letter_row ?n ?i T2 ! ?i"
    by (rule fold_letter_row_nth) (use i lenr in simp_all)
  finally have row: "transitions h ! ?i = letter_row ?n ?i T2 ! ?i" .
  have i1: "?i + 1 < ?n - 5" using k by auto
  have "?i - 5 = 2 + k * 3" by simp
  then have m: "(?i - 5) mod 3 = 2" by (simp only: mod_mult_self1) simp
  from letter_row_last_state[OF lenr i1 m] row show ?thesis by simp
qed

lemma copy_letters_cols_right:
  "copy_letters w L c T E = Inr (T2, E2) \<Longrightarrow> square n T \<Longrightarrow> c + 3 * length w \<le> j
   \<Longrightarrow> j < n \<Longrightarrow> i < n \<Longrightarrow> T2 ! i ! j = T ! i ! j"
proof (induction w arbitrary: c T E)
  case Nil
  then show ?case by simp
next
  case (Cons a w)
  from Cons.prems(1) obtain p TB EB where
    p: "L a = Some p" and TB: "bcast2 3 3 (transitions p) = Inr TB"
    and rest: "copy_letters w L (c + 3) (set_block T c c TB) (set_block E 0 c EB) = Inr (T2, E2)"
    by (auto split: option.splits sum.splits)
  have c3: "c + 3 \<le> n" using Cons.prems(3,4) by simp
  have sq': "square n (set_block T c c TB)"
    using set_block_square[OF Cons.prems(2), of TB 3 c c] bcast2_shape[OF TB] c3 by simp
  have lenT: "length T = n" "length (T ! i) = n"
    using Cons.prems(2,5) by (auto simp: square_def list_all_length)
  have "T2 ! i ! j = set_block T c c TB ! i ! j"
    using Cons.IH[OF rest sq'] Cons.prems(3,4,5) by simp
  also have "\<dots> = T ! i ! j"
  proof (cases "c \<le> i \<and> i < c + length TB")
    case True
    then have "length (TB ! (i - c)) = 3" using bcast2_shape[OF TB] by auto
    then show ?thesis
      using True lenT Cons.prems(3,4,5) c3 by (simp add: set_block_nth set_slice_nth)
  next
    case False
    then show ?thesis using lenT Cons.prems(5) by (auto simp: set_block_nth)
  qed
  finally show ?case .
qed

lemma zeros2_nth: "i < r \<Longrightarrow> j < c \<Longrightarrow> zeros2 r c ! i ! j = Fin 0"
  by (simp add: zeros2_def zeros_def)

lemma builder_no_glue_after_leading_silence:
  assumes ok: "initialize_combined_hmm word L sil = Inr h"
  shows "transitions h ! 4 ! 5 = Fin 0"
proof -
  let ?n = "10 + 3 * length word"
  from builder_parts[OF ok] obtain ST SE T2 E2 where
    ST: "bcast2 5 5 (transitions sil) = Inr ST"
    and cl: "copy_letters word L 5 (set_block (zeros2 ?n ?n) 0 0 ST)
               (set_block (zeros2 256 ?n) 0 0 SE) = Inr (T2, E2)"
    and T: "transitions h = set_block (fold (letter_row ?n) [5..<5 + 3 * length word] T2)
               (5 + 3 * length word) (5 + 3 * length word) ST"
    by blast
  let ?T1 = "set_block (zeros2 ?n ?n) 0 0 ST"
  have sq1: "square ?n ?T1"
    using set_block_square[OF zeros2_square, of ST 5 0 ?n 0] bcast2_shape[OF ST] by simp
  have sq2: "square ?n T2" using copy_letters_square[OF cl sq1] by simp
  have len2: "length T2 = ?n" using sq2 by (simp add: square_def)
  have lenST: "length ST = 5" "length (ST ! 4) = 5" using bcast2_shape[OF ST] by auto
  have len0: "length (zeros2 ?n ?n) = ?n" "length (zeros2 ?n ?n ! 4) = ?n"
    by (simp_all add: zeros2_def zeros_def)
  have "transitions h ! 4 = fold (letter_row ?n) [5..<5 + 3 * length word] T2 ! 4"
    unfolding T using len2 by (subst set_block_nth) simp_all
  also have "\<dots> = T2 ! 4" by (rule fold_letter_row_other) simp
  also have "\<dots> = ?T1 ! 4" by (rule copy_letters_rows_below[OF cl]) (simp_all add: len0)
  also have "\<dots> = set_slice (zeros2 ?n ?n ! 4) 0 (ST ! 4)"
    using len0 lenST by (simp add: set_block_nth)
  finally have "transitions h ! 4 ! 5 = set_slice (zeros2 ?n ?n ! 4) 0 (ST ! 4) ! 5" by simp
  also have "\<dots> = zeros2 ?n ?n ! 4 ! 5"
    using len0 lenST by (simp add: set_slice_nth)
  also have "\<dots> = Fin 0" by (simp add: zeros2_nth)
  finally show ?thesis .
qed

lemma builder_no_glue_into_trailing_silence:
  assumes ok: "initialize_combined_hmm word L sil = Inr h" and ne: "word \<noteq> []"
  shows "transitions h ! (4 + 3 * length word) ! (5 + 3 * length word) = Fin 0"
proof -
  let ?n = "10 + 3 * length word"
  let ?i = "4 + 3 * length word"
  let ?j = "5 + 3 * length word"
  from builder_parts[OF ok] obtain ST SE T2 E2 where
    ST: "bcast2 5 5 (transitions sil) = Inr ST"
    and cl: "copy_letters word L 5 (set_block (zeros2 ?n ?n) 0 0 ST)
               (set_block (zeros2 256 ?n) 0 0 SE) = Inr (T2, E2)"
    and T: "transitions h = set_block (fold (letter_row ?n) [5..<5 + 3 * length word] T2)
               (5 + 3 * length word) (5 + 3 * length word) ST"
    by blast
  let ?T1 = "set_block (zeros2 ?n ?n) 0 0 ST"
  have sq1: "square ?n ?T1"
    using set_block_square[OF zeros2_square, of ST 5 0 ?n 0] bcast2_shape[OF ST] by simp
  have sq2: "square ?n T2" using copy_letters_square[OF cl sq1] by simp
  have len2: "length T2 = ?n" "length (T2 ! ?i) = ?n"
    using sq2 by (auto simp: square_def list_all_length)
  have lenST: "length ST = 5" using bcast2_shape[OF ST] by auto
  have len0: "length (zeros2 ?n ?n) = ?n" by (simp add: zeros2_def)
  have pos: "0 < length word" using ne by simp
  have i5: "5 \<le> ?i" using ne by (cases word) auto
  have "transitions h ! ?i = fold (letter_row ?n) [5..<5 + 3 * length word] T2 ! ?i"
    unfolding T using len2 by (subst set_block_nth) simp_all
  also have "\<dots> = letter_row ?n ?i T2 ! ?i"
    by (rule fold_letter_row_nth) (use i5 len2 in simp_all)
  finally have row: "transitions h ! ?i = letter_row ?n ?i T2 ! ?i" .
  obtain l where l: "length word = Suc l" using pos by (cases "length word") auto
  have "?i - 5 = 2 + l * 3" using l by simp
  then have m: "(?i - 5) mod 3 = 2" by (simp only: mod_mult_self1) simp
  have "letter_row ?n ?i T2 ! ?i ! ?j = T2 ! ?i ! ?j"
    using m len2 by (simp add: letter_row_def Let_def)
  also have "\<dots> = ?T1 ! ?i ! ?j"
    by (rule copy_letters_cols_right[OF cl sq1]) simp_all
  also have "\<dots> = zeros2 ?n ?n ! ?i ! ?j"
  proof -
    have ni: "\<not> (0 \<le> ?i \<and> ?i < 0 + length ST)" using ne lenST by (cases word) auto
    have "?i < length (zeros2 ?n ?n)" using len0 by simp
    then have "?T1 ! ?i = zeros2 ?n ?n ! ?i"
      by (simp only: set_block_nth ni if_False)
    then show ?thesis by simp
  qed
  also have "\<dots> = Fin 0" by (simp add: zeros2_nth)
  finally show ?thesis using row by simp
qed

lemma list_all_replicate: "list_all P (replicate n x) = (n = 0 \<or> P x)"
  by (induction n) auto

lemma builder_accepts_ab: "\<exists>h. initialize_combined_hmm ''ab'' ex_letters ex_silence = Inr h"
proof -
  have s1: "bcast2 5 5 (transitions ex_silence) = Inr (transitions ex_silence)"
    by (simp add: bcast2_def ex_silence_def upt_rec nth_Cons')
  obtain SE where s2: "emis_block 256 5 (emissions ex_silence) = Inr SE"
    by (simp add: bcast2_def ex_silence_def list_all_replicate)
  have l1: "bcast2 3 3 (transitions ex_letter) = Inr (transitions ex_letter)"
    by (simp add: bcast2_def ex_letter_def transition_prob_matrix_def upt_rec nth_Cons')
  obtain EB where l2: "emis_block 256 3 (emissions ex_letter) = Inr EB"
    by (simp add: bcast2_def ex_letter_def list_all_replicate)
  have a: "ex_letters CHR ''a'' = Some ex_letter" and b: "ex_letters CHR ''b'' = Some ex_letter"
    by (simp_all add: ex_letters_def)
  show ?thesis
    by (simp add: initialize_combined_hmm_def Let_def s1 s2 l1 l2 a b)
qed

text \<open>
  Claim C4 as stated (a glue transition of probability exactly 1.0 leads from the
  last state of the preceding block into the first state of every letter block, and one
  from the last letter state into the first state of the trailing silence block) fails.
  For the word \<open>ab\<close> the builder returns a model of 16 states in which the entry from
  state 4, the last of the leading silence, to state 5 is zero, the entry from state 7,
  the last of the block of \<open>a\<close>, to state 8, the first of the block of \<open>b\<close>, is 0.2,
  and the entry from state 10, the last letter state, to state 11, the first of the
  trailing silence, is zero.
\<close>

theorem composite_model_has_no_unit_glue:
  "\<exists>h. initialize_combined_hmm ''ab'' ex_letters ex_silence = Inr h
       \<and> transitions h ! 4 ! 5 = Fin 0
       \<and> transitions h ! 7 ! 8 = Fin (2 / 10)
       \<and> transitions h ! 10 ! 11 = Fin 0"
proof -
  from builder_accepts_ab obtain h where
    h: "initialize_combined_hmm ''ab'' ex_letters ex_silence = Inr h" by blast
  have "transitions h ! 4 ! 5 = Fin 0"
    by (rule builder_no_glue_after_leading_silence[OF h])
  moreover have "transitions h ! 7 ! 8 = Fin (2 / 10)"
    using builder_hand_off[OF h, of 0] by simp
  moreover have "transitions h ! 10 ! 11 = Fin 0"
    using builder_no_glue_into_trailing_silence[OF h] by simp
  ultimately show ?thesis using h by blast
qed

text \<open>
  Claim C4 as amended: for every word the builder accepts (all its letters have
  registered prototypes), the composite model hands over from each letter block to the
  next with probability 0.2: the last state of the block of letter number \<open>k\<close> (state
  \<open>7 + 3k\<close>) keeps a self-loop of 0.8 and reaches the first state of the block of the
  next letter (state \<open>8 + 3k\<close>) with 0.2.
\<close>

theorem letter_blocks_hand_over_with_one_fifth:
  assumes "initialize_combined_hmm word letter_HMMs silence_HMM = Inr h"
    and "k + 1 < length word"
  shows "transitions h ! (7 + 3 * k) ! (8 + 3 * k) = Fin (2 / 10)
       \<and> transitions h ! (7 + 3 * k) ! (7 + 3 * k) = Fin (8 / 10)"
  using assms by (rule builder_hand_off)

theorem letter_blocks_hand_over_with_one_fifth_witness:
  "(0::nat) + 1 < length ''ab''
   \<and> (\<exists>h. initialize_combined_hmm ''ab'' ex_letters ex_silence = Inr h
          \<and> transitions h ! (7 + 3 * 0) ! (8 + 3 * 0) = Fin (2 / 10)
          \<and> transitions h ! (7 + 3 * 0) ! (7 + 3 * 0) = Fin (8 / 10))"
proof -
  from builder_accepts_ab obtain h where
    h: "initialize_combined_hmm ''ab'' ex_letters ex_silence = Inr h" by blast
  have k: "(0::nat) + 1 < length ''ab''" by simp
  from letter_blocks_hand_over_with_one_fifth [OF h k] h k show ?thesis by blast
qed

end
